theory Spec2Isabelle
  imports Main
begin

section \<open>JavaScript values\<close>

text \<open>
  The workflow runtime (\<^verbatim>\<open>packages/workflow/src/internals.ts\<close> and the module that
  overrides the globals and initialises the workflow) is embedded as functions on an
  explicit engine state. A function that may throw returns a pair: the outcome
  (\<open>Ok\<close> with the returned value, or \<open>Throw\<close> with the thrown value) and the state
  as the mutations made before the throw left it, since a JavaScript exception does
  not undo assignments.

  A JavaScript number is modelled as an unbounded integer or \<open>NaN\<close>: fractions,
  infinities and the loss of precision above \<open>2^53\<close> are outside the model.
\<close>

datatype number = Num int | NaN

datatype cancellation_source = internal | external

datatype error_class = Error | TypeError | IllegalStateError | DeterminismViolationError

text \<open>
  \<open>JError c m\<close> is an instance of the error class \<open>c\<close> with message \<open>m\<close>;
  \<open>JCancellationError m src\<close> is an instance of \<^verbatim>\<open>CancellationError\<close>. Values are compared
  structurally: two error objects with the same class and message are the same value.
\<close>

datatype jsval =
    JUndefined
  | JNull
  | JBool bool
  | JNum number
  | JStr string
  | JObject nat
  | JError error_class string
  | JCancellationError string cancellation_source

datatype 'a result = Ok 'a | Throw jsval


fun instanceof_CancellationError :: "jsval \<Rightarrow> bool" where
  "instanceof_CancellationError (JCancellationError _ _) = True"
| "instanceof_CancellationError _ = False"

subsection \<open>Numbers and strings\<close>

definition digit_char :: "nat \<Rightarrow> char" where
  "digit_char d = ''0123456789'' ! d"

fun show_nat :: "nat \<Rightarrow> string" where
  "show_nat n = (if n < 10 then [digit_char n] else show_nat (n div 10) @ [digit_char (n mod 10)])"

declare show_nat.simps [simp del]

text \<open>The template literal \<^verbatim>\<open>`${n}`\<close> of a number.\<close>

fun number_to_string :: "number \<Rightarrow> string" where
  "number_to_string NaN = ''NaN''"
| "number_to_string (Num i) = (if i < 0 then CHR ''-'' # show_nat (nat (- i)) else show_nat (nat i))"

declare number_to_string.simps [simp del]

text \<open>
  \<^verbatim>\<open>parseInt(s)\<close> with no radix: leading white space is skipped, a sign is read, a
  prefix \<^verbatim>\<open>0x\<close> or \<^verbatim>\<open>0X\<close> selects base 16, and the longest prefix of digits of the base is
  the value; no digit gives \<open>NaN\<close>. White space is the ASCII white space.
\<close>

definition is_space :: "char \<Rightarrow> bool" where
  "is_space c = (c \<in> set [CHR '' '', CHR 0x09, CHR 0x0A, CHR 0x0B, CHR 0x0C, CHR 0x0D])"

definition digit_value :: "char \<Rightarrow> nat option" where
  "digit_value c =
     (let n = of_char c :: nat in
      if 48 \<le> n \<and> n \<le> 57 then Some (n - 48)
      else if 97 \<le> n \<and> n \<le> 122 then Some (n - 87)
      else if 65 \<le> n \<and> n \<le> 90 then Some (n - 55)
      else None)"

definition is_digit_in :: "nat \<Rightarrow> char \<Rightarrow> bool" where
  "is_digit_in radix c = (case digit_value c of None \<Rightarrow> False | Some d \<Rightarrow> d < radix)"

definition digits_value :: "nat \<Rightarrow> string \<Rightarrow> nat" where
  "digits_value radix ds = foldl (\<lambda>acc c. acc * radix + (case digit_value c of None \<Rightarrow> 0 | Some d \<Rightarrow> d)) 0 ds"

definition parse_digits :: "nat \<Rightarrow> string \<Rightarrow> nat option" where
  "parse_digits radix s =
     (let ds = takeWhile (is_digit_in radix) s
      in if ds = [] then None else Some (digits_value radix ds))"

definition strip_hex_prefix :: "string \<Rightarrow> nat \<times> string" where
  "strip_hex_prefix s =
     (case s of
        c0 # c1 # rest \<Rightarrow>
          if c0 = CHR ''0'' \<and> (c1 = CHR ''x'' \<or> c1 = CHR ''X'') then (16, rest) else (10, s)
      | _ \<Rightarrow> (10, s))"

definition parseInt :: "string \<Rightarrow> number" where
  "parseInt str =
     (let s = dropWhile is_space str;
          (neg, s1) = (case s of
                         c # rest \<Rightarrow>
                           if c = CHR ''-'' then (True, rest)
                           else if c = CHR ''+'' then (False, rest)
                           else (False, s)
                       | [] \<Rightarrow> (False, s));
          (radix, s2) = strip_hex_prefix s1
      in case parse_digits radix s2 of
           None \<Rightarrow> NaN
         | Some n \<Rightarrow> Num (if neg then - int n else int n))"

section \<open>The engine state\<close>

text \<open>
  Code outside the engine (the workflow's callbacks, the resolvers of promises, the
  cancellation functions that the authoring API installs on child scopes) is not part
  of the model. The engine holds such a function as a closure value; calling it appends
  the call to the log \<open>calls\<close> of the state and takes the outcome (a returned value or a
  thrown one) from an oracle, which sees the log so far. What the called code does to
  the engine in turn (starting a timer, say) is a further transition of the engine and
  is not folded into the call.
\<close>

datatype cancel_method = requestCancel | completeCancel

text \<open>
  A scope is a reference: the root scope, a constant of the module, or a scope created
  by \<^verbatim>\<open>childScope\<close>. Only scopes with a parent are added to a set of children, so a
  child is never the root.
\<close>

datatype scope_ref = RootScope | ChildScope nat

datatype callee = Fun nat | ScopeMethod nat cancel_method

text \<open>
  The closures the engine stores: a function received from outside, the closure
  \<^verbatim>\<open>() => cb(...args)\<close> that \<^verbatim>\<open>setTimeout\<close> builds, and \<^verbatim>\<open>() => undefined\<close>.
\<close>

datatype closure = Opaque callee | TimerCallback callee "jsval list" | Ignore

type_synonym call_log = "(callee \<times> jsval list) list"

type_synonym outside = "call_log \<Rightarrow> callee \<Rightarrow> jsval list \<Rightarrow> jsval result"

record Completion =
  resolve :: closure
  reject :: closure
  scope :: scope_ref

record ExternalCall =
  ifaceName :: string
  fnName :: string
  args :: "jsval list"
  seq :: "number option"

record Timestamp =
  seconds :: int
  nanos :: int

type_synonym payload = "nat list"

record Failure =
  message :: "string option"

datatype command =
    startTimer string Timestamp
  | cancelTimer string
  | completeWorkflowExecution payload
  | failWorkflowExecution Failure
  | respondToQuery_succeeded payload
  | respondToQuery_failedWithMessage "string option"

text \<open>A promise is modelled by its eventual state; \<open>Pending\<close> never settles.\<close>

datatype promise = Fulfilled jsval | Rejected jsval | Pending

datatype returned = Value jsval | PromiseOf promise

record ExecuteInput =
  headers :: "(string \<times> payload) list"
  execute_args :: "jsval list"

record SignalInput =
  signal_args :: "jsval list"
  signalName_in :: string

text \<open>
  An inbound interceptor has the methods \<^verbatim>\<open>execute\<close> and \<^verbatim>\<open>handleSignal\<close>, each taking
  the input and the next function of the chain and returning a promise.
\<close>

record Interceptor =
  execute :: "ExecuteInput \<Rightarrow> (ExecuteInput \<Rightarrow> promise) \<Rightarrow> promise"
  handleSignal :: "SignalInput \<Rightarrow> (SignalInput \<Rightarrow> promise) \<Rightarrow> promise"

record WorkflowInterceptors =
  inbound :: "Interceptor list"
  outbound :: "nat list"

text \<open>
  The workflow object: \<^verbatim>\<open>main\<close> is asynchronous and is modelled by the promise it
  returns; a signal handler is called inside an asynchronous function, so it too is
  modelled by a promise; a query handler returns a value or a promise, or throws.
\<close>

record Workflow =
  main :: "jsval list \<Rightarrow> promise"
  queries :: "(string \<rightharpoonup> (jsval list \<Rightarrow> returned result)) option"
  signals :: "(string \<rightharpoonup> (jsval list \<Rightarrow> promise)) option"

record WorkflowInfo =
  runId :: string
  isReplaying :: bool

datatype rng = Uninitialized | Alea "nat list"

text \<open>
  The handlers attached to a promise run when it settles, in a later microtask. The
  state keeps the attached chains in \<open>reactions\<close>; \<open>run_reaction\<close> below is what a chain
  does once its promise has settled.
\<close>

datatype reaction =
    ThenCompleteWorkflowCatchFailWorkflow promise
  | CatchFailWorkflow promise
  | ThenCompleteQueryCatchFailQuery promise

text \<open>
  The state of the engine. The fields \<^verbatim>\<open>activator\<close> and \<^verbatim>\<open>rootScope\<close> are constants and
  are not stored; \<^verbatim>\<open>isolateExtension\<close>, \<^verbatim>\<open>activityDefaults\<close> and \<^verbatim>\<open>dependencies\<close> play no part
  in the functions below and are left out. \<open>reactions\<close> and \<open>calls\<close> are not fields of the
  source: they record the handlers attached to promises and the calls made to code
  outside the engine.
\<close>

record State =
  completions :: "number \<rightharpoonup> Completion"
  scopeStack :: "scope_ref list"
  childScopes :: "scope_ref \<rightharpoonup> nat list"
  interceptors :: WorkflowInterceptors
  commands :: "command list"
  pendingExternalCalls :: "ExternalCall list"
  completed :: bool
  cancelled :: bool
  nextSeq :: int
  nextScopeIdx :: nat
  now :: "number option"
  workflow :: "Workflow option"
  info :: "WorkflowInfo option"
  random :: rng
  reactions :: "reaction list"
  calls :: call_log

text \<open>The field initialisers of \<^verbatim>\<open>class State\<close>.\<close>

definition initial_state :: State where
  "initial_state =
     \<lparr> completions = Map.empty,
       scopeStack = [RootScope],
       childScopes = Map.empty,
       interceptors = \<lparr> inbound = [], outbound = [] \<rparr>,
       commands = [],
       pendingExternalCalls = [],
       completed = False,
       cancelled = False,
       nextSeq = 0,
       nextScopeIdx = 1,
       now = None,
       workflow = None,
       info = None,
       random = Uninitialized,
       reactions = [],
       calls = [] \<rparr>"

section \<open>Activations\<close>

text \<open>
  The decoded activation. An optional field of the protobuf message is an \<open>option\<close>.
  The result of an activity has the fields \<^verbatim>\<open>completed\<close>, \<^verbatim>\<open>failed\<close> and \<^verbatim>\<open>canceled\<close>,
  which the handler tests in this order; \<^verbatim>\<open>completed.result\<close> and \<^verbatim>\<open>failed.failure\<close> are
  optional in turn.
\<close>

record StartWorkflow =
  start_headers :: "(string \<times> payload) list option"
  start_arguments :: "payload list option"

record FireTimer =
  timerId :: "string option"

record ActivityResult =
  result_completed :: "payload option option"
  result_failed :: "Failure option option"
  result_canceled :: bool

record ResolveActivity =
  activityId :: "string option"
  result :: "ActivityResult option"

record QueryWorkflow =
  queryType :: "string option"
  query_arguments :: "payload list option"

record SignalWorkflow =
  signalName :: "string option"
  input :: "payload list option"

record UpdateRandomSeed =
  randomnessSeed :: "nat list option"

datatype job_variant =
    StartWorkflowJob StartWorkflow
  | CancelWorkflowJob
  | FireTimerJob FireTimer
  | ResolveActivityJob ResolveActivity
  | QueryWorkflowJob QueryWorkflow
  | SignalWorkflowJob SignalWorkflow
  | UpdateRandomSeedJob UpdateRandomSeed
  | RemoveFromCacheJob

text \<open>
  A job whose \<^verbatim>\<open>variant\<close> is undefined, a job that names a variant whose field is not
  set, and a job with its variant.
\<close>

datatype WFActivationJob = NoVariant | VariantUnset string | Job job_variant

record WFActivation =
  timestamp :: "Timestamp option"
  activation_isReplaying :: "bool option"
  jobs :: "WFActivationJob list"

record WFActivationCompletion =
  completion_runId :: "string option"
  successful_commands :: "command list"

text \<open>
  Functions of this repository whose source is in other modules (the time helpers,
  the data converter, the failure conversion) and the protobuf codec are parameters,
  collected in one record.
\<close>

record lib =
  msToTs :: "number \<Rightarrow> Timestamp"
  tsToMs :: "Timestamp option \<Rightarrow> number result"
  toPayload :: "jsval \<Rightarrow> payload result"
  fromPayload :: "payload \<Rightarrow> jsval result"
  arrayFromPayloads :: "payload list option \<Rightarrow> jsval list result"
  errorToUserCodeFailure :: "jsval \<Rightarrow> Failure"
  encodeDelimited :: "WFActivationCompletion \<Rightarrow> nat list"
  decodeDelimited :: "nat list \<Rightarrow> WFActivation result"

section \<open>Scopes and calls\<close>

definition invoke :: "outside \<Rightarrow> callee \<Rightarrow> jsval list \<Rightarrow> State \<Rightarrow> jsval result \<times> State" where
  "invoke env f xs s = (env (calls s) f xs, s\<lparr>calls := calls s @ [(f, xs)]\<rparr>)"

fun call :: "outside \<Rightarrow> closure \<Rightarrow> jsval list \<Rightarrow> State \<Rightarrow> jsval result \<times> State" where
  "call env (Opaque f) xs s = invoke env f xs s"
| "call env (TimerCallback cb cargs) xs s = invoke env cb cargs s"
| "call env Ignore xs s = (Ok JUndefined, s)"

definition currentScope :: "State \<Rightarrow> scope_ref result" where
  "currentScope s =
     (if scopeStack s = [] then Throw (JError Error ''No scopes in stack'')
      else Ok (last (scopeStack s)))"

section \<open>The overridden timeout globals\<close>

definition setTimeout :: "lib \<Rightarrow> callee \<Rightarrow> number \<Rightarrow> jsval list \<Rightarrow> State \<Rightarrow> number result \<times> State" where
  "setTimeout L cb ms cargs s =
     (let seq = nextSeq s;
          s1 = s\<lparr>nextSeq := nextSeq s + 1\<rparr>
      in case currentScope s1 of
           Throw e \<Rightarrow> (Throw e, s1)
         | Ok sc \<Rightarrow>
             let s2 = s1\<lparr>completions := (completions s1)(Num seq \<mapsto>
                          \<lparr> resolve = TimerCallback cb cargs, reject = Ignore, scope = sc \<rparr>)\<rparr>;
                 s3 = s2\<lparr>commands := commands s2 @ [startTimer (number_to_string (Num seq)) (msToTs L ms)]\<rparr>
             in (Ok (Num seq), s3))"

definition clearTimeout :: "number \<Rightarrow> State \<Rightarrow> State" where
  "clearTimeout handle s =
     (let s1 = s\<lparr>nextSeq := nextSeq s + 1\<rparr>;
          s2 = s1\<lparr>completions := (completions s1)(handle := None)\<rparr>
      in s2\<lparr>commands := commands s2 @ [cancelTimer (number_to_string handle)]\<rparr>)"

section \<open>The scope stack and the children of a scope\<close>

text \<open>
  A scope object, as far as \<^verbatim>\<open>pushScope\<close> and the promise hook read it: the root scope,
  which has no parent, or a scope made by \<^verbatim>\<open>childScope\<close> with its index, its type and
  its parent. The parent of a scope is never reassigned.
\<close>

datatype scope_type = ScopeType | ActivityType | TimerType

datatype Scope = Root | Child nat scope_type scope_ref

text \<open>\<^verbatim>\<open>Set.add\<close> and \<^verbatim>\<open>Set.delete\<close> on a set kept as a list in insertion order.\<close>

definition set_add :: "nat \<Rightarrow> nat list \<Rightarrow> nat list" where
  "set_add n xs = (if n \<in> set xs then xs else xs @ [n])"

definition set_delete :: "nat \<Rightarrow> nat list \<Rightarrow> nat list" where
  "set_delete n xs = removeAll n xs"

fun pushScope :: "Scope \<Rightarrow> State \<Rightarrow> State" where
  "pushScope Root s = s\<lparr>scopeStack := scopeStack s @ [RootScope]\<rparr>"
| "pushScope (Child n t p) s =
     (let s1 = s\<lparr>scopeStack := scopeStack s @ [ChildScope n]\<rparr>;
          children = (case childScopes s1 p of None \<Rightarrow> [] | Some cs \<Rightarrow> cs)
      in s1\<lparr>childScopes := (childScopes s1)(p \<mapsto> set_add n children)\<rparr>)"

definition popScope :: "State \<Rightarrow> State" where
  "popScope s = s\<lparr>scopeStack := butlast (scopeStack s)\<rparr>"

text \<open>
  The \<^verbatim>\<open>resolve\<close> case of the promise hook installed by \<^verbatim>\<open>initWorkflow\<close>, given the
  data attached to the promise (\<open>None\<close> when the promise has none).
\<close>

record PromiseData =
  data_scope :: Scope
  cancellable :: bool

definition hook_resolve :: "PromiseData option \<Rightarrow> State \<Rightarrow> unit result \<times> State" where
  "hook_resolve data s =
     (case data of
        None \<Rightarrow> (Throw (JError IllegalStateError ''Expected promise to have an associated scope''), s)
      | Some d \<Rightarrow>
          if cancellable d then
            (case data_scope d of
               Root \<Rightarrow> (Throw (JError IllegalStateError ''Resolved promise for orphan scope''), s)
             | Child n t p \<Rightarrow>
                 (case childScopes s p of
                    None \<Rightarrow> (Ok (), s)
                  | Some scopes \<Rightarrow>
                      let scopes1 = set_delete n scopes;
                          s1 = s\<lparr>childScopes := (childScopes s)(p \<mapsto> scopes1)\<rparr>
                      in if length scopes1 = 0
                         then (Ok (), s1\<lparr>childScopes := (childScopes s1)(p := None)\<rparr>)
                         else (Ok (), s1)))
          else (Ok (), s))"

section \<open>Cancellation\<close>

text \<open>
  \<^verbatim>\<open>propagateCancellation(method)(reject, scope)(err)\<close>. The set of children is a list in
  insertion order, and the loop runs over the set as it is when the loop starts. A
  child is called through the outside world; what it throws is passed to \<open>reject\<close>
  unless it is \<open>err\<close> itself (the source compares by identity, the model by value), and
  a throw of \<open>reject\<close> leaves the loop.
\<close>

fun propagate_children ::
  "outside \<Rightarrow> cancel_method \<Rightarrow> closure \<Rightarrow> jsval \<Rightarrow> nat list \<Rightarrow> State \<Rightarrow> unit result \<times> State" where
  "propagate_children env m rej err [] s = (Ok (), s)"
| "propagate_children env m rej err (child # rest) s =
     (case invoke env (ScopeMethod child m) [err] s of
        (Ok _, s1) \<Rightarrow> propagate_children env m rej err rest s1
      | (Throw e, s1) \<Rightarrow>
          if e \<noteq> err then
            (case call env rej [e] s1 of
               (Throw e', s2) \<Rightarrow> (Throw e', s2)
             | (Ok _, s2) \<Rightarrow> propagate_children env m rej err rest s2)
          else propagate_children env m rej err rest s1)"

definition propagateCancellation ::
  "outside \<Rightarrow> cancel_method \<Rightarrow> closure \<Rightarrow> scope_ref \<Rightarrow> jsval \<Rightarrow> State \<Rightarrow> unit result \<times> State" where
  "propagateCancellation env m rej sc err s =
     (case childScopes s sc of
        None \<Rightarrow> (Throw (JError Error ''Expected to find child scope mapping, got undefined''), s)
      | Some children \<Rightarrow>
          (case propagate_children env m rej err children s of
             (Throw e, s1) \<Rightarrow> (Throw e, s1)
           | (Ok _, s1) \<Rightarrow>
               (case call env rej [err] s1 of
                  (Throw e, s2) \<Rightarrow> (Throw e, s2)
                | (Ok _, s2) \<Rightarrow> (Ok (), s2))))"

definition rootScopeCancel :: "outside \<Rightarrow> jsval \<Rightarrow> State \<Rightarrow> unit result \<times> State" where
  "rootScopeCancel env err s = propagateCancellation env completeCancel Ignore RootScope err s"

text \<open>The two cancellation functions of a scope; those of the root are its object literal.\<close>

fun scope_requestCancel :: "outside \<Rightarrow> scope_ref \<Rightarrow> jsval \<Rightarrow> State \<Rightarrow> unit result \<times> State" where
  "scope_requestCancel env RootScope err s =
     (Throw (JError Error ''Root scope cannot be cancelled from within a workflow''), s)"
| "scope_requestCancel env (ChildScope n) err s =
     (case invoke env (ScopeMethod n requestCancel) [err] s of
        (Throw e, s1) \<Rightarrow> (Throw e, s1)
      | (Ok _, s1) \<Rightarrow> (Ok (), s1))"

fun scope_completeCancel :: "outside \<Rightarrow> scope_ref \<Rightarrow> jsval \<Rightarrow> State \<Rightarrow> unit result \<times> State" where
  "scope_completeCancel env RootScope err s = rootScopeCancel env err s"
| "scope_completeCancel env (ChildScope n) err s =
     (case invoke env (ScopeMethod n completeCancel) [err] s of
        (Throw e, s1) \<Rightarrow> (Throw e, s1)
      | (Ok _, s1) \<Rightarrow> (Ok (), s1))"

section \<open>The completion table\<close>

definition consumeCompletion :: "number \<Rightarrow> State \<Rightarrow> Completion result \<times> State" where
  "consumeCompletion taskSeq s =
     (case completions s taskSeq of
        None \<Rightarrow> (Throw (JError Error (''No completion for taskSeq '' @ number_to_string taskSeq)), s)
      | Some completion \<Rightarrow> (Ok completion, s\<lparr>completions := (completions s)(taskSeq := None)\<rparr>))"

definition idToSeq :: "string option \<Rightarrow> number result" where
  "idToSeq ident =
     (case ident of
        None \<Rightarrow> Throw (JError Error ''Got activation with no timerId'')
      | Some str \<Rightarrow>
          if str = [] then Throw (JError Error ''Got activation with no timerId'')
          else Ok (parseInt str))"

definition call_unit :: "outside \<Rightarrow> closure \<Rightarrow> jsval list \<Rightarrow> State \<Rightarrow> unit result \<times> State" where
  "call_unit env f xs s =
     (case call env f xs s of
        (Throw e, s1) \<Rightarrow> (Throw e, s1)
      | (Ok _, s1) \<Rightarrow> (Ok (), s1))"



section \<open>Completing and failing\<close>

definition completeWorkflow :: "lib \<Rightarrow> jsval \<Rightarrow> State \<Rightarrow> unit result \<times> State" where
  "completeWorkflow L res s =
     (case toPayload L res of
        Throw e \<Rightarrow> (Throw e, s)
      | Ok p \<Rightarrow> (Ok (), s\<lparr>commands := commands s @ [completeWorkflowExecution p], completed := True\<rparr>))"

definition failWorkflow :: "lib \<Rightarrow> jsval \<Rightarrow> State \<Rightarrow> unit result \<times> State" where
  "failWorkflow L err s =
     (Ok (), s\<lparr>commands := commands s @ [failWorkflowExecution (errorToUserCodeFailure L err)],
               completed := True\<rparr>)"

definition completeQuery :: "lib \<Rightarrow> jsval \<Rightarrow> State \<Rightarrow> unit result \<times> State" where
  "completeQuery L res s =
     (case toPayload L res of
        Throw e \<Rightarrow> (Throw e, s)
      | Ok p \<Rightarrow> (Ok (), s\<lparr>commands := commands s @ [respondToQuery_succeeded p]\<rparr>))"

text \<open>
  \<^verbatim>\<open>error.message\<close>: reading a property of \<^verbatim>\<open>undefined\<close> or \<^verbatim>\<open>null\<close> throws a TypeError;
  a value that is not an error object has no message.
\<close>

fun get_message :: "jsval \<Rightarrow> string option result" where
  "get_message JUndefined = Throw (JError TypeError ''Cannot read property 'message' of undefined'')"
| "get_message JNull = Throw (JError TypeError ''Cannot read property 'message' of null'')"
| "get_message (JError _ m) = Ok (Some m)"
| "get_message (JCancellationError m _) = Ok (Some m)"
| "get_message _ = Ok None"

definition failQuery :: "jsval \<Rightarrow> State \<Rightarrow> unit result \<times> State" where
  "failQuery err s =
     (case get_message err of
        Throw e \<Rightarrow> (Throw e, s)
      | Ok m \<Rightarrow> (Ok (), s\<lparr>commands := commands s @ [respondToQuery_failedWithMessage m]\<rparr>))"

text \<open>
  What the chain of handlers attached to a promise does once the promise has settled:
  \<^verbatim>\<open>p.then(f).catch(g)\<close> runs \<open>f\<close> on fulfilment and \<open>g\<close> on rejection or when \<open>f\<close> throws;
  \<^verbatim>\<open>p.catch(g)\<close> runs \<open>g\<close> on rejection.
\<close>

fun then_catch ::
  "(jsval \<Rightarrow> State \<Rightarrow> unit result \<times> State) \<Rightarrow> (jsval \<Rightarrow> State \<Rightarrow> unit result \<times> State) \<Rightarrow>
   promise \<Rightarrow> State \<Rightarrow> unit result \<times> State" where
  "then_catch f g (Fulfilled v) s =
     (case f v s of (Throw e, s1) \<Rightarrow> g e s1 | (Ok _, s1) \<Rightarrow> (Ok (), s1))"
| "then_catch f g (Rejected e) s = g e s"
| "then_catch f g Pending s = (Ok (), s)"

fun run_reaction :: "lib \<Rightarrow> reaction \<Rightarrow> State \<Rightarrow> unit result \<times> State" where
  "run_reaction L (ThenCompleteWorkflowCatchFailWorkflow p) s =
     then_catch (completeWorkflow L) (failWorkflow L) p s"
| "run_reaction L (CatchFailWorkflow p) s =
     then_catch (\<lambda>v s'. (Ok (), s')) (failWorkflow L) p s"
| "run_reaction L (ThenCompleteQueryCatchFailQuery p) s =
     then_catch (completeQuery L) failQuery p s"

section \<open>Interceptors\<close>

text \<open>
  Modelled from the spec: \<^verbatim>\<open>composeInterceptors\<close> is imported from the module
  \<^verbatim>\<open>./interceptors\<close>, which is not among the sources. The spec: composition is a
  right fold, the last interceptor wraps the base action and each preceding interceptor
  wraps the next; each interceptor receives the input and the next function.
\<close>

definition composeInterceptors ::
  "'i list \<Rightarrow> ('i \<Rightarrow> 'a \<Rightarrow> ('a \<Rightarrow> promise) \<Rightarrow> promise) \<Rightarrow> ('a \<Rightarrow> promise) \<Rightarrow> 'a \<Rightarrow> promise" where
  "composeInterceptors chain m base = foldr (\<lambda>i nxt. (\<lambda>inp. m i inp nxt)) chain base"

section \<open>The activator\<close>

definition startWorkflow :: "lib \<Rightarrow> StartWorkflow \<Rightarrow> State \<Rightarrow> unit result \<times> State" where
  "startWorkflow L activation s =
     (let run = composeInterceptors (inbound (interceptors s)) execute
                  (\<lambda>inp. case workflow s of
                            None \<Rightarrow> Rejected (JError IllegalStateError ''state.workflow is not defined'')
                          | Some w \<Rightarrow> main w (execute_args inp))
      in case arrayFromPayloads L (start_arguments activation) of
           Throw e \<Rightarrow> (Throw e, s)
         | Ok xs \<Rightarrow>
             let p = run \<lparr> headers = (case start_headers activation of None \<Rightarrow> [] | Some h \<Rightarrow> h),
                           execute_args = xs \<rparr>
             in (Ok (), s\<lparr>reactions := reactions s @ [ThenCompleteWorkflowCatchFailWorkflow p]\<rparr>))"

definition cancelWorkflow :: "outside \<Rightarrow> State \<Rightarrow> unit result \<times> State" where
  "cancelWorkflow env s =
     rootScopeCancel env (JCancellationError ''Workflow cancelled'' external) (s\<lparr>cancelled := True\<rparr>)"

definition fireTimer :: "outside \<Rightarrow> FireTimer \<Rightarrow> State \<Rightarrow> unit result \<times> State" where
  "fireTimer env activation s =
     (case idToSeq (timerId activation) of
        Throw e \<Rightarrow> (Throw e, s)
      | Ok taskSeq \<Rightarrow>
          (case consumeCompletion taskSeq s of
             (Throw e, s1) \<Rightarrow> (Throw e, s1)
           | (Ok completion, s1) \<Rightarrow> call_unit env (resolve completion) [JUndefined] s1))"

text \<open>
  The message of \<^verbatim>\<open>new Error(m)\<close> where \<open>m\<close> may be undefined: an undefined message is the
  empty string.
\<close>

definition error_message :: "string option \<Rightarrow> string" where
  "error_message m = (case m of None \<Rightarrow> [] | Some str \<Rightarrow> str)"

definition failure_message :: "Failure option \<Rightarrow> string option" where
  "failure_message f = (case f of None \<Rightarrow> None | Some fl \<Rightarrow> message fl)"

definition resolveActivity :: "lib \<Rightarrow> outside \<Rightarrow> ResolveActivity \<Rightarrow> State \<Rightarrow> unit result \<times> State" where
  "resolveActivity L env activation s =
     (case result activation of
        None \<Rightarrow> (Throw (JError Error ''Got CompleteActivity activation with no result''), s)
      | Some res \<Rightarrow>
          (case idToSeq (activityId activation) of
             Throw e \<Rightarrow> (Throw e, s)
           | Ok taskSeq \<Rightarrow>
               (case consumeCompletion taskSeq s of
                  (Throw e, s1) \<Rightarrow> (Throw e, s1)
                | (Ok completion, s1) \<Rightarrow>
                    (case result_completed res of
                       Some completed_result \<Rightarrow>
                         (case (case completed_result of
                                  None \<Rightarrow> Ok JUndefined
                                | Some p \<Rightarrow> fromPayload L p) of
                            Throw e \<Rightarrow> (Throw e, s1)
                          | Ok v \<Rightarrow>
                              if v = JUndefined
                              then call_unit env (reject completion)
                                     [JError Error ''Failed to convert from payload''] s1
                              else call_unit env (resolve completion) [v] s1)
                     | None \<Rightarrow>
                         (case result_failed res of
                            Some failed \<Rightarrow>
                              call_unit env (reject completion)
                                [JError Error (error_message (failure_message failed))] s1
                          | None \<Rightarrow>
                              if result_canceled res then
                                (case scope_completeCancel env (scope completion)
                                        (JCancellationError ''Activity cancelled'' internal) s1 of
                                   (Throw e, s2) \<Rightarrow>
                                     if \<not> instanceof_CancellationError e then (Throw e, s2)
                                     else (Ok (), s2)
                                 | (Ok _, s2) \<Rightarrow> (Ok (), s2))
                              else (Ok (), s1))))))"

text \<open>
  The body of the \<^verbatim>\<open>try\<close> block of \<^verbatim>\<open>queryWorkflow\<close>. The arguments of the call are
  evaluated before the call finds that an unregistered handler is not a function.
\<close>

definition query_body :: "lib \<Rightarrow> Workflow \<Rightarrow> QueryWorkflow \<Rightarrow> State \<Rightarrow> unit result \<times> State" where
  "query_body L w activation s =
     (case queries w of
        None \<Rightarrow> (Throw (JError Error ''Workflow did not define any queries''), s)
      | Some qs \<Rightarrow>
          (case queryType activation of
             None \<Rightarrow> (Throw (JError Error ''Missing query type''), s)
           | Some qt \<Rightarrow>
               if qt = [] then (Throw (JError Error ''Missing query type''), s)
               else
                 (case arrayFromPayloads L (query_arguments activation) of
                    Throw e \<Rightarrow> (Throw e, s)
                  | Ok xs \<Rightarrow>
                      (case qs qt of
                         None \<Rightarrow> (Throw (JError TypeError ''fn is not a function''), s)
                       | Some fn \<Rightarrow>
                           (case fn xs of
                              Throw e \<Rightarrow> (Throw e, s)
                            | Ok (PromiseOf p) \<Rightarrow>
                                (Ok (), s\<lparr>reactions := reactions s @ [ThenCompleteQueryCatchFailQuery p]\<rparr>)
                            | Ok (Value v) \<Rightarrow> completeQuery L v s)))))"

definition queryWorkflow :: "lib \<Rightarrow> QueryWorkflow \<Rightarrow> State \<Rightarrow> unit result \<times> State" where
  "queryWorkflow L activation s =
     (case workflow s of
        None \<Rightarrow> (Throw (JError Error ''state.workflow is not defined''), s)
      | Some w \<Rightarrow>
          (case query_body L w activation s of
             (Throw err, s1) \<Rightarrow> failQuery err s1
           | (Ok _, s1) \<Rightarrow> (Ok (), s1)))"

definition signalWorkflow :: "lib \<Rightarrow> SignalWorkflow \<Rightarrow> State \<Rightarrow> unit result \<times> State" where
  "signalWorkflow L activation s =
     (case workflow s of
        None \<Rightarrow> (Throw (JError Error ''state.workflow is not defined''), s)
      | Some w \<Rightarrow>
          (case signals w of
             None \<Rightarrow> (Throw (JError Error ''Workflow did not define any signals''), s)
           | Some sigs \<Rightarrow>
               (case signalName activation of
                  None \<Rightarrow> (Throw (JError Error ''Missing activation signalName''), s)
                | Some name \<Rightarrow>
                    if name = [] then (Throw (JError Error ''Missing activation signalName''), s)
                    else
                      (case sigs name of
                         None \<Rightarrow>
                           (Throw (JError Error (''Workflow did not register a signal named '' @ name)), s)
                       | Some fn \<Rightarrow>
                           let run = composeInterceptors (inbound (interceptors s)) handleSignal
                                       (\<lambda>inp. fn (signal_args inp))
                           in (case arrayFromPayloads L (input activation) of
                                 Throw e \<Rightarrow> (Throw e, s)
                               | Ok xs \<Rightarrow>
                                   let p = run \<lparr> signal_args = xs, signalName_in = name \<rparr>
                                   in (Ok (), s\<lparr>reactions := reactions s @ [CatchFailWorkflow p]\<rparr>))))))"

definition updateRandomSeed :: "UpdateRandomSeed \<Rightarrow> State \<Rightarrow> unit result \<times> State" where
  "updateRandomSeed activation s =
     (case randomnessSeed activation of
        None \<Rightarrow> (Throw (JError Error ''Expected activation with randomnessSeed attribute''), s)
      | Some seed \<Rightarrow> (Ok (), s\<lparr>random := Alea seed\<rparr>))"

definition removeFromCache :: "State \<Rightarrow> unit result \<times> State" where
  "removeFromCache s =
     (Throw (JError IllegalStateError ''removeFromCache activation job should not reach workflow''), s)"

text \<open>\<^verbatim>\<open>state.activator[job.variant](variant)\<close>.\<close>

fun activator :: "lib \<Rightarrow> outside \<Rightarrow> job_variant \<Rightarrow> State \<Rightarrow> unit result \<times> State" where
  "activator L env (StartWorkflowJob a) s = startWorkflow L a s"
| "activator L env CancelWorkflowJob s = cancelWorkflow env s"
| "activator L env (FireTimerJob a) s = fireTimer env a s"
| "activator L env (ResolveActivityJob a) s = resolveActivity L env a s"
| "activator L env (QueryWorkflowJob a) s = queryWorkflow L a s"
| "activator L env (SignalWorkflowJob a) s = signalWorkflow L a s"
| "activator L env (UpdateRandomSeedJob a) s = updateRandomSeed a s"
| "activator L env RemoveFromCacheJob s = removeFromCache s"

fun is_queryWorkflow :: "job_variant \<Rightarrow> bool" where
  "is_queryWorkflow (QueryWorkflowJob _) = True"
| "is_queryWorkflow _ = False"

section \<open>Running and concluding an activation\<close>

definition getAndResetPendingExternalCalls :: "State \<Rightarrow> ExternalCall list \<times> State" where
  "getAndResetPendingExternalCalls s =
     (if length (pendingExternalCalls s) > 0
      then (pendingExternalCalls s, s\<lparr>pendingExternalCalls := []\<rparr>)
      else ([], s))"

record ActivationJobResult =
  pendingExternalCalls_out :: "ExternalCall list"
  processed :: bool

text \<open>
  \<^verbatim>\<open>activate(encodedActivation, jobIndex)\<close>. An index past the end of the jobs reads
  \<^verbatim>\<open>undefined\<close>, and reading its \<^verbatim>\<open>variant\<close> throws a TypeError.
\<close>

definition activate ::
  "lib \<Rightarrow> outside \<Rightarrow> nat list \<Rightarrow> nat \<Rightarrow> State \<Rightarrow> ActivationJobResult result \<times> State" where
  "activate L env encodedActivation jobIndex s =
     (case decodeDelimited L encodedActivation of
        Throw e \<Rightarrow> (Throw e, s)
      | Ok activation \<Rightarrow>
          (case tsToMs L (timestamp activation) of
             Throw e \<Rightarrow> (Throw e, s)
           | Ok ms \<Rightarrow>
               let s1 = s\<lparr>now := Some ms\<rparr> in
               (case info s1 of
                  None \<Rightarrow> (Throw (JError IllegalStateError ''Workflow has not been initialized''), s1)
                | Some i \<Rightarrow>
                    let s2 = s1\<lparr>info := Some (i\<lparr>isReplaying :=
                                  (case activation_isReplaying activation of
                                     None \<Rightarrow> False | Some b \<Rightarrow> b)\<rparr>)\<rparr>
                    in if jobIndex \<ge> length (jobs activation)
                       then (Throw (JError TypeError ''Cannot read property 'variant' of undefined''), s2)
                       else
                         (case jobs activation ! jobIndex of
                            NoVariant \<Rightarrow>
                              (Throw (JError TypeError ''Expected job.variant to be defined''), s2)
                          | VariantUnset name \<Rightarrow>
                              (Throw (JError TypeError (''Expected job.'' @ name @ '' to be set'')), s2)
                          | Job variant \<Rightarrow>
                              if completed s2 \<and> \<not> is_queryWorkflow variant then
                                (let (calls_out, s3) = getAndResetPendingExternalCalls s2
                                 in (Ok \<lparr> pendingExternalCalls_out = calls_out, processed = False \<rparr>, s3))
                              else
                                (case activator L env variant s2 of
                                   (Throw e, s3) \<Rightarrow> (Throw e, s3)
                                 | (Ok _, s3) \<Rightarrow>
                                     let (calls_out, s4) = getAndResetPendingExternalCalls s3
                                     in (Ok \<lparr> pendingExternalCalls_out = calls_out, processed = True \<rparr>, s4))))))"

datatype ActivationConclusion = pending "ExternalCall list" | complete "nat list"

definition concludeActivation :: "lib \<Rightarrow> State \<Rightarrow> ActivationConclusion \<times> State" where
  "concludeActivation L s =
     (let (calls_out, s1) = getAndResetPendingExternalCalls s
      in if length calls_out > 0 then (pending calls_out, s1)
         else
           (let encoded = encodeDelimited L
                            \<lparr> completion_runId = map_option runId (info s1),
                              successful_commands = commands s1 \<rparr>
            in (complete encoded, s1\<lparr>commands := []\<rparr>)))"

section \<open>Auxiliary notions and example inputs\<close>

text \<open>The children registered for a scope; a scope with no entry has none.\<close>

definition children_of :: "State \<Rightarrow> scope_ref \<Rightarrow> nat list" where
  "children_of s sc = (case childScopes s sc of None \<Rightarrow> [] | Some children \<Rightarrow> children)"

text \<open>The second state is the first one with a longer or different log of calls.\<close>

definition only_calls :: "State \<Rightarrow> State \<Rightarrow> bool" where
  "only_calls s s' \<longleftrightarrow> s' = s\<lparr>calls := calls s'\<rparr>"

definition is_decimal :: "char \<Rightarrow> bool" where
  "is_decimal c \<longleftrightarrow> (\<exists>d<10. c = digit_char d)"



text \<open>
  Example inputs, used to evaluate the functions on concrete states. \<open>sample_lib\<close> stands
  for the imported helpers: a millisecond count becomes seconds and nanoseconds, a
  payload is a list holding one number, and every non-empty byte string decodes to
  \<open>sample_activation\<close>.
\<close>

definition sample_activation :: WFActivation where
  "sample_activation =
     \<lparr> timestamp = Some \<lparr> seconds = 1, nanos = 0 \<rparr>,
       activation_isReplaying = None,
       jobs = [Job (FireTimerJob \<lparr> timerId = Some ''0'' \<rparr>),
               Job (QueryWorkflowJob \<lparr> queryType = Some ''answer'', query_arguments = None \<rparr>)] \<rparr>"

definition sample_lib :: lib where
  "sample_lib =
     \<lparr> msToTs = (\<lambda>ms. case ms of
                        Num i \<Rightarrow> \<lparr> seconds = i div 1000, nanos = (i mod 1000) * 1000000 \<rparr>
                      | NaN \<Rightarrow> \<lparr> seconds = 0, nanos = 0 \<rparr>),
       tsToMs = (\<lambda>ts. case ts of
                        None \<Rightarrow> Throw (JError Error ''Expected timestamp, got undefined'')
                      | Some t \<Rightarrow> Ok (Num (seconds t * 1000 + nanos t div 1000000))),
       toPayload = (\<lambda>v. case v of JNum (Num i) \<Rightarrow> Ok [nat i] | _ \<Rightarrow> Ok []),
       fromPayload = (\<lambda>p. case p of [] \<Rightarrow> Ok JUndefined | n # _ \<Rightarrow> Ok (JNum (Num (int n)))),
       arrayFromPayloads = (\<lambda>ps. case ps of
                        None \<Rightarrow> Ok []
                      | Some l \<Rightarrow> Ok (map (\<lambda>p. case p of [] \<Rightarrow> JUndefined
                                                   | n # _ \<Rightarrow> JNum (Num (int n))) l)),
       errorToUserCodeFailure = (\<lambda>e. case e of
                        JError _ m \<Rightarrow> \<lparr> message = Some m \<rparr>
                      | JStr m \<Rightarrow> \<lparr> message = Some m \<rparr>
                      | _ \<Rightarrow> \<lparr> message = Some ''Unknown error'' \<rparr>),
       encodeDelimited = (\<lambda>c. [length (successful_commands c)]),
       decodeDelimited = (\<lambda>bytes. case bytes of
                        [] \<Rightarrow> Throw (JError Error ''index out of range'')
                      | _ \<Rightarrow> Ok sample_activation) \<rparr>"

text \<open>An outside world in which every call returns, and one in which every call throws
  its first argument back.\<close>

definition sample_env :: outside where
  "sample_env log f xs = Ok JUndefined"

definition rethrowing_env :: outside where
  "rethrowing_env log f xs = (case xs of [] \<Rightarrow> Ok JUndefined | x # _ \<Rightarrow> Throw x)"

definition failing_env :: outside where
  "failing_env log f xs = Throw (JError TypeError ''not a function'')"

definition sample_tree :: State where
  "sample_tree = initial_state\<lparr>childScopes := [RootScope \<mapsto> [1, 2]], nextScopeIdx := 3\<rparr>"

definition sample_completion :: Completion where
  "sample_completion = \<lparr> resolve = Opaque (Fun 1), reject = Opaque (Fun 2), scope = ChildScope 1 \<rparr>"

definition sample_pending :: State where
  "sample_pending =
     initial_state\<lparr>completions := [Num 0 \<mapsto> sample_completion],
                   nextSeq := 1,
                   childScopes := [RootScope \<mapsto> [1]],
                   nextScopeIdx := 2\<rparr>"

definition sample_workflow :: Workflow where
  "sample_workflow =
     \<lparr> main = (\<lambda>xs. case xs of [] \<Rightarrow> Rejected (JError Error ''no arguments'') | x # _ \<Rightarrow> Fulfilled x),
       queries = Some [''answer'' \<mapsto> (\<lambda>xs. Ok (Value (JNum (Num 42))))],
       signals = None \<rparr>"

definition sample_call :: ExternalCall where
  "sample_call = \<lparr> ifaceName = ''logger'', fnName = ''info'', args = [JStr ''done''], seq = None \<rparr>"

definition sample_completed :: State where
  "sample_completed =
     initial_state\<lparr>completed := True,
                   info := Some \<lparr> runId = ''run-1'', isReplaying = True \<rparr>,
                   workflow := Some sample_workflow,
                   pendingExternalCalls := [sample_call]\<rparr>"

definition sample_interceptor :: Interceptor where
  "sample_interceptor =
     \<lparr> execute = (\<lambda>inp nxt. nxt (inp\<lparr>execute_args := JNum (Num 1) # execute_args inp\<rparr>)),
       handleSignal = (\<lambda>inp nxt. nxt inp) \<rparr>"

definition sample_started :: State where
  "sample_started =
     initial_state\<lparr>workflow := Some sample_workflow,
                   info := Some \<lparr> runId = ''run-1'', isReplaying = False \<rparr>,
                   interceptors := \<lparr> inbound = [sample_interceptor], outbound = [] \<rparr>\<rparr>"

section \<open>Lemmas\<close>

subsection \<open>Decimal strings\<close>

lemma digit_cases: "d < 10 \<Longrightarrow> d \<in> {0, 1, 2, 3, 4, 5, 6, 7, 8, 9::nat}"
  by auto

lemma digit_value_digit_char: "d < 10 \<Longrightarrow> digit_value (digit_char d) = Some d"
  using digit_cases [of d] by (auto simp: digit_char_def digit_value_def)

lemma digit_char_plain:
  "d < 10 \<Longrightarrow> \<not> is_space (digit_char d) \<and> digit_char d \<noteq> CHR ''-'' \<and> digit_char d \<noteq> CHR ''+''
     \<and> digit_char d \<noteq> CHR ''x'' \<and> digit_char d \<noteq> CHR ''X''"
  using digit_cases [of d] by (auto simp: digit_char_def is_space_def)

lemma show_nat_decimal: "\<forall>c\<in>set (show_nat n). is_decimal c"
proof (induction n rule: show_nat.induct)
  case (1 n)
  show ?case
  proof (cases "n < 10")
    case True
    then show ?thesis
      by (subst show_nat.simps) (auto simp: is_decimal_def)
  next
    case False
    have "n mod 10 < 10" by simp
    then have "is_decimal (digit_char (n mod 10))"
      unfolding is_decimal_def by blast
    then show ?thesis
      using False "1.IH" by (subst show_nat.simps) auto
  qed
qed

lemma show_nat_not_Nil: "show_nat n \<noteq> []"
  by (subst show_nat.simps) simp

lemma digits_value_snoc:
  "digits_value r (xs @ [c]) =
     digits_value r xs * r + (case digit_value c of None \<Rightarrow> 0 | Some d \<Rightarrow> d)"
  by (simp add: digits_value_def)

lemma digits_value_show_nat: "digits_value 10 (show_nat n) = n"
proof (induction n rule: show_nat.induct)
  case (1 n)
  show ?case
  proof (cases "n < 10")
    case True
    then show ?thesis
      by (subst show_nat.simps) (simp add: digits_value_def digit_value_digit_char)
  next
    case False
    have m: "n mod 10 < 10" by simp
    have "digits_value 10 (show_nat n) =
          digits_value 10 (show_nat (n div 10)) * 10 + n mod 10"
      using False by (subst show_nat.simps) (simp add: digits_value_snoc digit_value_digit_char [OF m])
    then show ?thesis
      using False "1.IH" by simp
  qed
qed

lemma is_decimal_digit_in: "is_decimal c \<Longrightarrow> is_digit_in 10 c"
  by (auto simp: is_decimal_def is_digit_in_def digit_value_digit_char)

lemma parse_digits_show_nat: "parse_digits 10 (show_nat n) = Some n"
proof -
  have tw: "takeWhile (is_digit_in 10) (show_nat n) = show_nat n"
    using show_nat_decimal [of n] is_decimal_digit_in by (simp add: takeWhile_eq_all_conv)
  show ?thesis
    unfolding parse_digits_def Let_def tw
    by (simp add: show_nat_not_Nil digits_value_show_nat)
qed

lemma strip_hex_prefix_show_nat: "strip_hex_prefix (show_nat n) = (10, show_nat n)"
proof (cases "show_nat n")
  case Nil
  then show ?thesis by (simp add: strip_hex_prefix_def)
next
  case (Cons c0 rest)
  show ?thesis
  proof (cases rest)
    case Nil
    then show ?thesis using Cons by (simp add: strip_hex_prefix_def)
  next
    case (Cons c1 rest')
    have "is_decimal c1"
      using show_nat_decimal [of n] \<open>show_nat n = c0 # rest\<close> Cons by simp
    then have "c1 \<noteq> CHR ''x'' \<and> c1 \<noteq> CHR ''X''"
      using digit_char_plain by (auto simp: is_decimal_def)
    then show ?thesis
      using \<open>show_nat n = c0 # rest\<close> Cons by (simp add: strip_hex_prefix_def)
  qed
qed

lemma show_nat_head:
  obtains c rest where "show_nat n = c # rest" "is_decimal c"
proof (cases "show_nat n")
  case Nil
  then show ?thesis using show_nat_not_Nil by simp
next
  case (Cons c rest)
  then have "is_decimal c" using show_nat_decimal [of n] by simp
  then show ?thesis using Cons that by simp
qed

lemma parseInt_show_nat: "parseInt (show_nat n) = Num (int n)"
proof -
  obtain c rest where sn: "show_nat n = c # rest" and dc: "is_decimal c"
    by (rule show_nat_head)
  have plain: "\<not> is_space c \<and> c \<noteq> CHR ''-'' \<and> c \<noteq> CHR ''+''"
    using dc digit_char_plain by (auto simp: is_decimal_def)
  have "parseInt (c # rest) = Num (int n)"
    using plain strip_hex_prefix_show_nat [of n] parse_digits_show_nat [of n]
    by (simp add: parseInt_def sn)
  then show ?thesis by (simp add: sn)
qed

lemma parseInt_number_to_string: "parseInt (number_to_string (Num i)) = Num i"
proof (cases "i < 0")
  case False
  then show ?thesis by (simp add: number_to_string.simps parseInt_show_nat)
next
  case True
  have sp: "\<not> is_space CHR ''-''" by (simp add: is_space_def)
  have "parseInt (CHR ''-'' # show_nat (nat (- i))) = Num (- int (nat (- i)))"
    using sp strip_hex_prefix_show_nat [of "nat (- i)"] parse_digits_show_nat [of "nat (- i)"]
    by (simp add: parseInt_def)
  then show ?thesis using True by (simp add: number_to_string.simps)
qed

lemma idToSeq_number_to_string: "idToSeq (Some (number_to_string (Num i))) = Ok (Num i)"
proof -
  have "number_to_string (Num i) \<noteq> []"
    by (simp add: number_to_string.simps show_nat_not_Nil)
  then show ?thesis
    by (simp add: idToSeq_def parseInt_number_to_string)
qed

subsection \<open>Calls change the log only\<close>

lemma only_calls_refl: "only_calls s s"
  by (simp add: only_calls_def)

lemma only_calls_trans: "only_calls s s1 \<Longrightarrow> only_calls s1 s2 \<Longrightarrow> only_calls s s2"
  unfolding only_calls_def
proof -
  assume a: "s1 = s\<lparr>calls := calls s1\<rparr>" and b: "s2 = s1\<lparr>calls := calls s2\<rparr>"
  have "s2 = (s\<lparr>calls := calls s1\<rparr>)\<lparr>calls := calls s2\<rparr>"
    using a b by metis
  then show "s2 = s\<lparr>calls := calls s2\<rparr>" by simp
qed

lemma only_calls_invoke: "only_calls s (snd (invoke env f xs s))"
  by (simp add: invoke_def only_calls_def)

lemma only_calls_call: "only_calls s (snd (call env f xs s))"
  by (cases f) (simp_all add: only_calls_invoke only_calls_refl)

lemma snd_call_unit: "snd (call_unit env f xs s) = snd (call env f xs s)"
  by (simp add: call_unit_def split: prod.splits result.splits)

lemma only_calls_call_unit: "only_calls s (snd (call_unit env f xs s))"
  by (simp add: snd_call_unit only_calls_call)

lemma only_calls_propagate_children:
  "only_calls s (snd (propagate_children env m rej err children s))"
proof (induction children arbitrary: s)
  case Nil
  show ?case by (simp add: only_calls_refl)
next
  case (Cons child rest)
  obtain r s1 where inv: "invoke env (ScopeMethod child m) [err] s = (r, s1)"
    by (cases "invoke env (ScopeMethod child m) [err] s")
  have s1: "only_calls s s1"
    using only_calls_invoke [of s env "ScopeMethod child m" "[err]"] inv by simp
  show ?case
  proof (cases r)
    case (Ok v)
    then show ?thesis
      using inv only_calls_trans [OF s1 Cons.IH [of s1]] by simp
  next
    case (Throw e)
    show ?thesis
    proof (cases "e \<noteq> err")
      case False
      then show ?thesis
        using inv Throw only_calls_trans [OF s1 Cons.IH [of s1]] by simp
    next
      case True
      obtain r2 s2 where c: "call env rej [e] s1 = (r2, s2)"
        by (cases "call env rej [e] s1")
      have s2: "only_calls s s2"
        using only_calls_trans [OF s1] only_calls_call [of s1 env rej "[e]"] c by simp
      show ?thesis
      proof (cases r2)
        case (Ok v)
        then show ?thesis
          using inv Throw True c only_calls_trans [OF s2 Cons.IH [of s2]] by simp
      next
        case (Throw e')
        then show ?thesis
          using inv \<open>r = Throw e\<close> True c s2 by simp
      qed
    qed
  qed
qed

lemma only_calls_propagateCancellation:
  "only_calls s (snd (propagateCancellation env m rej sc err s))"
proof (cases "childScopes s sc")
  case None
  then show ?thesis by (simp add: propagateCancellation_def only_calls_refl)
next
  case (Some children)
  obtain r s1 where p: "propagate_children env m rej err children s = (r, s1)"
    by (cases "propagate_children env m rej err children s")
  have s1: "only_calls s s1"
    using only_calls_propagate_children [of s env m rej err children] p by simp
  show ?thesis
  proof (cases r)
    case (Throw e)
    then show ?thesis using Some p s1 by (simp add: propagateCancellation_def)
  next
    case (Ok u)
    obtain r2 s2 where c: "call env rej [err] s1 = (r2, s2)"
      by (cases "call env rej [err] s1")
    have "only_calls s s2"
      using only_calls_trans [OF s1] only_calls_call [of s1 env rej "[err]"] c by simp
    then show ?thesis
      using Some p Ok c by (cases r2) (simp_all add: propagateCancellation_def)
  qed
qed

lemma only_calls_scope_completeCancel:
  "only_calls s (snd (scope_completeCancel env sc err s))"
proof (cases sc)
  case RootScope
  then show ?thesis
    by (simp add: rootScopeCancel_def only_calls_propagateCancellation)
next
  case (ChildScope n)
  have "snd (scope_completeCancel env (ChildScope n) err s) =
        snd (invoke env (ScopeMethod n completeCancel) [err] s)"
    by (simp split: prod.splits result.splits)
  then show ?thesis
    using ChildScope by (simp add: only_calls_invoke)
qed

lemma only_calls_completions: "only_calls s s' \<Longrightarrow> completions s' = completions s"
  unfolding only_calls_def
proof -
  assume a: "s' = s\<lparr>calls := calls s'\<rparr>"
  have "completions (s\<lparr>calls := calls s'\<rparr>) = completions s" by simp
  then show "completions s' = completions s" using a by metis
qed

subsection \<open>The engine functions\<close>

lemma invoke_frame: "snd (invoke env f xs s) = s\<lparr>calls := calls s @ [(f, xs)]\<rparr>"
  by (simp add: invoke_def)

lemma getAndReset_eq:
  "getAndResetPendingExternalCalls s = (pendingExternalCalls s, s\<lparr>pendingExternalCalls := []\<rparr>)"
  by (cases "pendingExternalCalls s") (simp_all add: getAndResetPendingExternalCalls_def)

lemma propagate_children_Ignore:
  "propagate_children env m Ignore err children s =
     (Ok (), s\<lparr>calls := calls s @ map (\<lambda>c. (ScopeMethod c m, [err])) children\<rparr>)"
proof (induction children arbitrary: s)
  case Nil
  show ?case by simp
next
  case (Cons child rest)
  show ?case
  proof (cases "env (calls s) (ScopeMethod child m) [err]")
    case (Ok v)
    then show ?thesis by (simp add: invoke_def Cons.IH)
  next
    case (Throw e)
    then show ?thesis by (simp add: invoke_def Cons.IH)
  qed
qed

lemma rootScopeCancel_Some:
  assumes "childScopes s RootScope = Some children"
  shows "rootScopeCancel env err s =
           (Ok (), s\<lparr>calls := calls s @ map (\<lambda>c. (ScopeMethod c completeCancel, [err])) children\<rparr>)"
  using assms by (simp add: rootScopeCancel_def propagateCancellation_def propagate_children_Ignore)

lemma rootScopeCancel_None:
  assumes "childScopes s RootScope = None"
  shows "rootScopeCancel env err s =
           (Throw (JError Error ''Expected to find child scope mapping, got undefined''), s)"
  using assms by (simp add: rootScopeCancel_def propagateCancellation_def)


lemma consumeCompletion_Some:
  "completions s n = Some c \<Longrightarrow>
   consumeCompletion n s = (Ok c, s\<lparr>completions := (completions s)(n := None)\<rparr>)"
  by (simp add: consumeCompletion_def)


text \<open>
  A timer started by \<open>setTimeout\<close> and fired by the job that carries its timer id: the
  callback is called with its arguments and the entry is gone.
\<close>

lemma fireTimer_after_setTimeout:
  assumes "scopeStack s \<noteq> []"
  shows "fireTimer env \<lparr> timerId = Some (number_to_string (Num (nextSeq s))) \<rparr>
           (snd (setTimeout L cb ms cargs s)) =
         ((case env (calls s) cb cargs of Ok v \<Rightarrow> Ok () | Throw e \<Rightarrow> Throw e),
          s\<lparr>nextSeq := nextSeq s + 1,
            completions := (completions s)(Num (nextSeq s) := None),
            commands := commands s @ [startTimer (number_to_string (Num (nextSeq s))) (msToTs L ms)],
            calls := calls s @ [(cb, cargs)]\<rparr>)"
  using assms
  by (cases "env (calls s) cb cargs")
    (simp_all add: fireTimer_def idToSeq_number_to_string setTimeout_def currentScope_def Let_def
      consumeCompletion_def call_unit_def invoke_def)

section \<open>The claims\<close>

subsection \<open>Skipping jobs on a completed workflow\<close>

text \<open>
  C1. When the activation decodes, its timestamp converts, the workflow info is set and
  the job at the index has a variant, and \<open>state.completed\<close> is true: a job that is not
  a query is not dispatched, \<open>activate\<close> returns \<open>processed = false\<close> together with the
  pending external calls, which are drained, and the state is otherwise the one left by
  the updates of \<open>now\<close> and \<open>isReplaying\<close>; a query job is handed to \<open>queryWorkflow\<close> and
  the result is \<open>processed = true\<close> with the pending calls it left.
\<close>

theorem activate_completed:
  assumes "decodeDelimited L bytes = Ok act"
    and "tsToMs L (timestamp act) = Ok ms"
    and "info s = Some i"
    and "jobIndex < length (jobs act)"
    and "jobs act ! jobIndex = Job v"
    and "completed s"
    and "s2 = s\<lparr>now := Some ms,
                  info := Some (i\<lparr>isReplaying :=
                            (case activation_isReplaying act of None \<Rightarrow> False | Some b \<Rightarrow> b)\<rparr>)\<rparr>"
  shows "(\<not> is_queryWorkflow v \<longrightarrow>
            activate L env bytes jobIndex s =
              (Ok \<lparr> pendingExternalCalls_out = pendingExternalCalls s, processed = False \<rparr>,
               s2\<lparr>pendingExternalCalls := []\<rparr>))
         \<and> (\<forall>q. v = QueryWorkflowJob q \<longrightarrow>
            activate L env bytes jobIndex s =
              (case queryWorkflow L q s2 of
                 (Throw e, s3) \<Rightarrow> (Throw e, s3)
               | (Ok u, s3) \<Rightarrow>
                   (Ok \<lparr> pendingExternalCalls_out = pendingExternalCalls s3, processed = True \<rparr>,
                    s3\<lparr>pendingExternalCalls := []\<rparr>)))"
  using assms
  by (auto simp: activate_def Let_def getAndReset_eq split: prod.splits result.splits)

theorem activate_completed_witness:
  "completed sample_completed
   \<and> activate sample_lib sample_env [1] 0 sample_completed =
       (Ok \<lparr> pendingExternalCalls_out = [sample_call], processed = False \<rparr>,
        sample_completed\<lparr>now := Some (Num 1000),
                         info := Some \<lparr> runId = ''run-1'', isReplaying = False \<rparr>,
                         pendingExternalCalls := []\<rparr>)
   \<and> activate sample_lib sample_env [1] 1 sample_completed =
       (Ok \<lparr> pendingExternalCalls_out = [sample_call], processed = True \<rparr>,
        sample_completed\<lparr>now := Some (Num 1000),
                         info := Some \<lparr> runId = ''run-1'', isReplaying = False \<rparr>,
                         commands := [respondToQuery_succeeded [42]],
                         pendingExternalCalls := []\<rparr>)"
proof -
  let ?i = "\<lparr> runId = ''run-1'', isReplaying = True \<rparr>"
  let ?s2 = "sample_completed\<lparr>now := Some (Num 1000),
               info := Some \<lparr> runId = ''run-1'', isReplaying = False \<rparr>\<rparr>"
  let ?q = "\<lparr> queryType = Some ''answer'', query_arguments = None \<rparr>"
  have d: "decodeDelimited sample_lib [1] = Ok sample_activation"
    by (simp add: sample_lib_def)
  have t: "tsToMs sample_lib (timestamp sample_activation) = Ok (Num 1000)"
    by (simp add: sample_lib_def sample_activation_def)
  have i: "info sample_completed = Some ?i"
    by (simp add: sample_completed_def)
  have l0: "0 < length (jobs sample_activation)" and l1: "1 < length (jobs sample_activation)"
    by (simp_all add: sample_activation_def)
  have j0: "jobs sample_activation ! 0 = Job (FireTimerJob \<lparr> timerId = Some ''0'' \<rparr>)"
    by (simp add: sample_activation_def)
  have j1: "jobs sample_activation ! 1 = Job (QueryWorkflowJob ?q)"
    by (simp add: sample_activation_def)
  have c: "completed sample_completed"
    by (simp add: sample_completed_def)
  have s2: "?s2 = sample_completed\<lparr>now := Some (Num 1000),
                  info := Some (?i\<lparr>isReplaying :=
                     (case activation_isReplaying sample_activation of None \<Rightarrow> False | Some b \<Rightarrow> b)\<rparr>)\<rparr>"
    by (simp add: sample_activation_def)
  have p: "pendingExternalCalls sample_completed = [sample_call]"
    by (simp add: sample_completed_def)
  have q: "queryWorkflow sample_lib ?q ?s2 =
             (Ok (), ?s2\<lparr>commands := [respondToQuery_succeeded [42]]\<rparr>)"
    by (simp add: queryWorkflow_def query_body_def completeQuery_def sample_completed_def
        sample_workflow_def sample_lib_def initial_state_def)
  have p2: "pendingExternalCalls ?s2 = [sample_call]"
    by (simp add: sample_completed_def)
  show ?thesis
    using c p p2 q activate_completed [OF d t i l0 j0 c s2, of sample_env]
      activate_completed [OF d t i l1 j1 c s2, of sample_env]
    by simp
qed

subsection \<open>Resolution jobs for an unknown sequence number\<close>




subsection \<open>Resolving an activity\<close>

text \<open>
  C3. For a \<open>resolveActivity\<close> job with a result whose activity id names an entry of the
  completion table, the entry is removed, and then: a completed result whose payload
  decodes to a defined value resolves the completion with that value; a completed
  result with no payload, or whose payload decodes to \<open>undefined\<close>, rejects it with the
  error \<open>Failed to convert from payload\<close>; a failed result rejects it with an error
  carrying the failure message; a canceled result calls \<open>completeCancel\<close> of the
  completion's scope, an instance of \<open>CancellationError\<close> thrown from it is swallowed and
  any other thrown value propagates. The entry is gone in every case.
\<close>

theorem resolveActivity_cases:
  assumes "result a = Some res"
    and "idToSeq (activityId a) = Ok n"
    and "completions s n = Some c"
    and "s1 = s\<lparr>completions := (completions s)(n := None)\<rparr>"
  shows "(\<forall>p v. result_completed res = Some (Some p) \<and> fromPayload L p = Ok v \<and> v \<noteq> JUndefined \<longrightarrow>
            resolveActivity L env a s = call_unit env (resolve c) [v] s1)
         \<and> ((result_completed res = Some None
              \<or> (\<exists>p. result_completed res = Some (Some p) \<and> fromPayload L p = Ok JUndefined)) \<longrightarrow>
            resolveActivity L env a s =
              call_unit env (reject c) [JError Error ''Failed to convert from payload''] s1)
         \<and> (\<forall>f. result_completed res = None \<and> result_failed res = Some f \<longrightarrow>
            resolveActivity L env a s =
              call_unit env (reject c) [JError Error (error_message (failure_message f))] s1)
         \<and> (result_completed res = None \<and> result_failed res = None \<and> result_canceled res \<longrightarrow>
            resolveActivity L env a s =
              (case scope_completeCancel env (scope c)
                      (JCancellationError ''Activity cancelled'' internal) s1 of
                 (Throw e, s2) \<Rightarrow> (if instanceof_CancellationError e then Ok () else Throw e, s2)
               | (Ok u, s2) \<Rightarrow> (Ok (), s2)))
         \<and> completions (snd (resolveActivity L env a s)) = (completions s)(n := None)"
proof -
  have c1: "\<And>f xs. completions (snd (call_unit env f xs s1)) = (completions s)(n := None)"
    using only_calls_completions [OF only_calls_call_unit] assms(4) by simp
  have c2: "\<And>sc err. completions (snd (scope_completeCancel env sc err s1)) = (completions s)(n := None)"
    using only_calls_completions [OF only_calls_scope_completeCancel] assms(4) by simp
  have cons: "consumeCompletion n s = (Ok c, s1)"
    using assms(3,4) by (simp add: consumeCompletion_Some)
  have A: "\<forall>p v. result_completed res = Some (Some p) \<and> fromPayload L p = Ok v \<and> v \<noteq> JUndefined \<longrightarrow>
            resolveActivity L env a s = call_unit env (resolve c) [v] s1"
    using assms(1,2) cons by (simp add: resolveActivity_def)
  have B: "(result_completed res = Some None
              \<or> (\<exists>p. result_completed res = Some (Some p) \<and> fromPayload L p = Ok JUndefined)) \<longrightarrow>
            resolveActivity L env a s =
              call_unit env (reject c) [JError Error ''Failed to convert from payload''] s1"
    using assms(1,2) cons by (auto simp: resolveActivity_def)
  have C: "\<forall>f. result_completed res = None \<and> result_failed res = Some f \<longrightarrow>
            resolveActivity L env a s =
              call_unit env (reject c) [JError Error (error_message (failure_message f))] s1"
    using assms(1,2) cons by (simp add: resolveActivity_def)
  have D: "result_completed res = None \<and> result_failed res = None \<and> result_canceled res \<longrightarrow>
            resolveActivity L env a s =
              (case scope_completeCancel env (scope c)
                      (JCancellationError ''Activity cancelled'' internal) s1 of
                 (Throw e, s2) \<Rightarrow> (if instanceof_CancellationError e then Ok () else Throw e, s2)
               | (Ok u, s2) \<Rightarrow> (Ok (), s2))"
    using assms(1,2) cons by (auto simp: resolveActivity_def split: prod.splits result.splits)
  have s1c: "completions s1 = (completions s)(n := None)"
    using assms(4) by simp
  have snd_case: "\<And>X. snd (case X of
                 (Throw e, s2) \<Rightarrow> (if instanceof_CancellationError e then Ok () else Throw e, s2)
               | (Ok u, s2) \<Rightarrow> (Ok (), s2)) = snd (X :: unit result \<times> State)"
    by (simp split: prod.splits result.splits)
  have E: "completions (snd (resolveActivity L env a s)) = (completions s)(n := None)"
  proof (cases "result_completed res")
    case (Some completed_result)
    show ?thesis
    proof (cases "case completed_result of None \<Rightarrow> Ok JUndefined | Some p \<Rightarrow> fromPayload L p")
      case (Throw e)
      then show ?thesis
        using assms(1,2) cons Some s1c by (simp add: resolveActivity_def)
    next
      case (Ok v)
      then show ?thesis
        using assms(1,2) cons Some c1 by (simp add: resolveActivity_def)
    qed
  next
    case None
    show ?thesis
    proof (cases "result_failed res")
      case (Some f)
      then show ?thesis
        using C None c1 by simp
    next
      case nf: None
      show ?thesis
      proof (cases "result_canceled res")
        case True
        then show ?thesis
          using D None nf c2 by (simp add: snd_case)
      next
        case False
        then show ?thesis
          using assms(1,2) cons None nf s1c by (simp add: resolveActivity_def)
      qed
    qed
  qed
  show ?thesis using A B C D E by blast
qed

theorem resolveActivity_cases_witness:
  "resolveActivity sample_lib sample_env
      \<lparr> activityId = Some ''0'',
        result = Some \<lparr> result_completed = Some (Some [42]), result_failed = None,
                        result_canceled = False \<rparr> \<rparr> sample_pending =
     (Ok (), sample_pending\<lparr>completions := Map.empty, calls := [(Fun 1, [JNum (Num 42)])]\<rparr>)
   \<and> resolveActivity sample_lib sample_env
      \<lparr> activityId = Some ''0'',
        result = Some \<lparr> result_completed = Some None, result_failed = None,
                        result_canceled = False \<rparr> \<rparr> sample_pending =
     (Ok (), sample_pending\<lparr>completions := Map.empty,
               calls := [(Fun 2, [JError Error ''Failed to convert from payload''])]\<rparr>)
   \<and> resolveActivity sample_lib sample_env
      \<lparr> activityId = Some ''0'',
        result = Some \<lparr> result_completed = None, result_failed = Some (Some \<lparr> message = Some ''boom'' \<rparr>),
                        result_canceled = False \<rparr> \<rparr> sample_pending =
     (Ok (), sample_pending\<lparr>completions := Map.empty, calls := [(Fun 2, [JError Error ''boom''])]\<rparr>)
   \<and> resolveActivity sample_lib rethrowing_env
      \<lparr> activityId = Some ''0'',
        result = Some \<lparr> result_completed = None, result_failed = None, result_canceled = True \<rparr> \<rparr>
      sample_pending =
     (Ok (), sample_pending\<lparr>completions := Map.empty,
               calls := [(ScopeMethod 1 completeCancel, [JCancellationError ''Activity cancelled'' internal])]\<rparr>)
   \<and> resolveActivity sample_lib failing_env
      \<lparr> activityId = Some ''0'',
        result = Some \<lparr> result_completed = None, result_failed = None, result_canceled = True \<rparr> \<rparr>
      sample_pending =
     (Throw (JError TypeError ''not a function''),
      sample_pending\<lparr>completions := Map.empty,
               calls := [(ScopeMethod 1 completeCancel, [JCancellationError ''Activity cancelled'' internal])]\<rparr>)"
proof -
  let ?r1 = "\<lparr> result_completed = Some (Some [42]), result_failed = None, result_canceled = False \<rparr>"
  let ?r2 = "\<lparr> result_completed = Some None, result_failed = None, result_canceled = False \<rparr>"
  let ?r3 = "\<lparr> result_completed = None, result_failed = Some (Some \<lparr> message = Some ''boom'' \<rparr>),
               result_canceled = False \<rparr>"
  let ?r4 = "\<lparr> result_completed = None, result_failed = None, result_canceled = True \<rparr>"
  let ?s1 = "sample_pending\<lparr>completions := (completions sample_pending)(Num 0 := None)\<rparr>"
  have zero: "number_to_string (Num 0) = ''0''"
    by (simp add: number_to_string.simps show_nat.simps digit_char_def)
  have id0: "\<And>r. idToSeq (activityId \<lparr> activityId = Some ''0'', result = r \<rparr>) = Ok (Num 0)"
    using idToSeq_number_to_string [of 0] zero by simp
  have c0: "completions sample_pending (Num 0) = Some sample_completion"
    by (simp add: sample_pending_def)
  have s1: "?s1 = sample_pending\<lparr>completions := Map.empty\<rparr>"
    by (simp add: sample_pending_def)
  have log: "calls sample_pending = []"
    by (simp add: sample_pending_def initial_state_def)
  have w1: "resolveActivity sample_lib sample_env \<lparr> activityId = Some ''0'', result = Some ?r1 \<rparr>
              sample_pending = call_unit sample_env (Opaque (Fun 1)) [JNum (Num 42)] ?s1"
    using resolveActivity_cases [OF _ id0 c0 refl, of _ ?r1 sample_lib sample_env]
    by (simp add: sample_lib_def sample_completion_def)
  have w2: "resolveActivity sample_lib sample_env \<lparr> activityId = Some ''0'', result = Some ?r2 \<rparr>
              sample_pending =
            call_unit sample_env (Opaque (Fun 2)) [JError Error ''Failed to convert from payload''] ?s1"
    using resolveActivity_cases [OF _ id0 c0 refl, of _ ?r2 sample_lib sample_env]
    by (simp add: sample_completion_def)
  have w3: "resolveActivity sample_lib sample_env \<lparr> activityId = Some ''0'', result = Some ?r3 \<rparr>
              sample_pending = call_unit sample_env (Opaque (Fun 2)) [JError Error ''boom''] ?s1"
    using resolveActivity_cases [OF _ id0 c0 refl, of _ ?r3 sample_lib sample_env]
    by (simp add: sample_completion_def error_message_def failure_message_def)
  have w4: "\<And>env. resolveActivity sample_lib env \<lparr> activityId = Some ''0'', result = Some ?r4 \<rparr>
              sample_pending =
            (case scope_completeCancel env (ChildScope 1)
                    (JCancellationError ''Activity cancelled'' internal) ?s1 of
               (Throw e, s2) \<Rightarrow> (if instanceof_CancellationError e then Ok () else Throw e, s2)
             | (Ok u, s2) \<Rightarrow> (Ok (), s2))"
    using resolveActivity_cases [OF _ id0 c0 refl, of _ ?r4 sample_lib]
    by (simp add: sample_completion_def)
  show ?thesis
    unfolding w1 w2 w3 w4 s1
    by (simp add: call_unit_def invoke_def sample_env_def rethrowing_env_def failing_env_def log)
qed

subsection \<open>Cancelling the workflow\<close>

text \<open>
  C4. A \<open>cancelWorkflow\<close> job sets \<open>state.cancelled\<close> and calls the complete-cancel of the
  root scope, which calls \<open>completeCancel\<close> of every child registered for the root, in
  order, with the error \<open>CancellationError('Workflow cancelled', 'external')\<close>, whatever
  the children throw; nothing else in the state changes, and the job returns normally
  whenever the root has an entry in the map of children. The \<open>requestCancel\<close> of the root
  scope throws in every state.
\<close>

theorem cancelWorkflow_propagates:
  "snd (cancelWorkflow env s) =
      s\<lparr>cancelled := True,
        calls := calls s @ map (\<lambda>c. (ScopeMethod c completeCancel,
                                       [JCancellationError ''Workflow cancelled'' external]))
                               (children_of s RootScope)\<rparr>
   \<and> cancelled (snd (cancelWorkflow env s))
   \<and> (childScopes s RootScope \<noteq> None \<longrightarrow> fst (cancelWorkflow env s) = Ok ())
   \<and> scope_completeCancel env RootScope err s = rootScopeCancel env err s
   \<and> scope_requestCancel env RootScope err s =
       (Throw (JError Error ''Root scope cannot be cancelled from within a workflow''), s)"
proof (cases "childScopes s RootScope")
  case None
  then show ?thesis
    by (simp add: cancelWorkflow_def rootScopeCancel_None children_of_def)
next
  case (Some children)
  then show ?thesis
    by (simp add: cancelWorkflow_def rootScopeCancel_Some children_of_def)
qed

theorem cancelWorkflow_propagates_witness:
  "childScopes sample_tree RootScope \<noteq> None
   \<and> cancelWorkflow rethrowing_env sample_tree =
       (Ok (), sample_tree\<lparr>cancelled := True,
          calls := [(ScopeMethod 1 completeCancel, [JCancellationError ''Workflow cancelled'' external]),
                    (ScopeMethod 2 completeCancel, [JCancellationError ''Workflow cancelled'' external])]\<rparr>)"
proof -
  have "childScopes sample_tree RootScope \<noteq> None"
    by (simp add: sample_tree_def)
  moreover have "children_of sample_tree RootScope = [1, 2]"
    by (simp add: children_of_def sample_tree_def)
  moreover have "calls sample_tree = []"
    by (simp add: sample_tree_def initial_state_def)
  ultimately show ?thesis
    using cancelWorkflow_propagates [of rethrowing_env sample_tree]
    by (simp add: prod_eq_iff)
qed

subsection \<open>Timers\<close>

text \<open>
  C5. In a state whose scope stack is not empty, \<open>setTimeout(cb, ms, ...args)\<close> returns
  \<open>seq\<close>, the value of \<open>nextSeq\<close> before the call, increments \<open>nextSeq\<close>, stores under \<open>seq\<close> a
  completion whose scope is the current scope, whose \<open>resolve\<close> calls \<open>cb\<close> with \<open>args\<close>
  whatever it is given, and whose \<open>reject\<close> does nothing, and appends a \<open>startTimer\<close>
  command whose timer id is the decimal string of \<open>seq\<close> (\<open>idToSeq\<close> reads \<open>seq\<close> back from
  it) and whose timeout is \<open>msToTs(ms)\<close>.
\<close>

theorem setTimeout_allocates:
  assumes "scopeStack s \<noteq> []"
  shows "setTimeout L cb ms cargs s =
           (Ok (Num (nextSeq s)),
            s\<lparr>nextSeq := nextSeq s + 1,
              completions := (completions s)(Num (nextSeq s) \<mapsto>
                 \<lparr> resolve = TimerCallback cb cargs, reject = Ignore, scope = last (scopeStack s) \<rparr>),
              commands := commands s @ [startTimer (number_to_string (Num (nextSeq s))) (msToTs L ms)]\<rparr>)
         \<and> currentScope s = Ok (last (scopeStack s))
         \<and> call env (TimerCallback cb cargs) xs s' = invoke env cb cargs s'
         \<and> call env Ignore xs s' = (Ok JUndefined, s')
         \<and> idToSeq (Some (number_to_string (Num (nextSeq s)))) = Ok (Num (nextSeq s))"
  using assms
  by (simp add: setTimeout_def currentScope_def Let_def idToSeq_number_to_string)

theorem setTimeout_allocates_witness:
  "scopeStack initial_state \<noteq> []
   \<and> setTimeout sample_lib (Fun 0) (Num 100) [JNum (Num 5)] initial_state =
       (Ok (Num 0),
        initial_state\<lparr>nextSeq := 1,
          completions := [Num 0 \<mapsto> \<lparr> resolve = TimerCallback (Fun 0) [JNum (Num 5)], reject = Ignore,
                                      scope = RootScope \<rparr>],
          commands := [startTimer ''0'' \<lparr> seconds = 0, nanos = 100000000 \<rparr>]\<rparr>)"
  using setTimeout_allocates [of initial_state sample_lib "Fun 0" "Num 100" "[JNum (Num 5)]"]
  by (simp add: initial_state_def sample_lib_def number_to_string.simps show_nat.simps digit_char_def)

text \<open>
  C6. \<open>clearTimeout(handle)\<close> increments \<open>nextSeq\<close>, removes the entry of the completion
  table under \<open>handle\<close> and leaves the other entries, and appends a \<open>cancelTimer\<close> command
  whose timer id is the string of \<open>handle\<close>, the decimal string that \<open>idToSeq\<close> reads back
  when \<open>handle\<close> is an integer; no other field changes.
\<close>

theorem clearTimeout_cancels:
  "nextSeq (clearTimeout handle s) = nextSeq s + 1
   \<and> completions (clearTimeout handle s) handle = None
   \<and> (\<forall>k. k \<noteq> handle \<longrightarrow> completions (clearTimeout handle s) k = completions s k)
   \<and> commands (clearTimeout handle s) = commands s @ [cancelTimer (number_to_string handle)]
   \<and> (\<forall>i. handle = Num i \<longrightarrow> idToSeq (Some (number_to_string handle)) = Ok handle)
   \<and> clearTimeout handle s =
        s\<lparr>nextSeq := nextSeq s + 1, completions := (completions s)(handle := None),
          commands := commands s @ [cancelTimer (number_to_string handle)]\<rparr>"
  by (simp add: clearTimeout_def Let_def idToSeq_number_to_string)

theorem clearTimeout_cancels_witness:
  "clearTimeout (Num 0) sample_pending =
     sample_pending\<lparr>nextSeq := 2, completions := Map.empty, commands := [cancelTimer ''0'']\<rparr>
   \<and> idToSeq (Some ''0'') = Ok (Num 0)"
proof -
  have zero: "number_to_string (Num 0) = ''0''"
    by (simp add: number_to_string.simps show_nat.simps digit_char_def)
  have "nextSeq sample_pending = 1" and "commands sample_pending = []"
    and "(completions sample_pending)(Num 0 := None) = Map.empty"
    by (simp_all add: sample_pending_def initial_state_def)
  then show ?thesis
    using clearTimeout_cancels [of "Num 0" sample_pending] zero
    by simp
qed

text \<open>
  C9. \<open>clearTimeout(handle)\<close> for a handle with no entry in the completion table still
  increments \<open>nextSeq\<close> and appends the \<open>cancelTimer\<close> command for that handle; the
  table and every other field stay as they were.
\<close>

theorem clearTimeout_unknown_handle:
  assumes "completions s handle = None"
  shows "clearTimeout handle s =
           s\<lparr>nextSeq := nextSeq s + 1,
             commands := commands s @ [cancelTimer (number_to_string handle)]\<rparr>"
proof -
  have "(completions s)(handle := None) = completions s"
    using assms by (simp add: fun_upd_idem_iff)
  then show ?thesis
    by (simp add: clearTimeout_def Let_def)
qed

theorem clearTimeout_unknown_handle_witness:
  "completions initial_state (Num 7) = None
   \<and> clearTimeout (Num 7) initial_state = initial_state\<lparr>nextSeq := 1, commands := [cancelTimer ''7'']\<rparr>
   \<and> completions (clearTimeout (Num 0) sample_pending) (Num 0) = None
   \<and> clearTimeout (Num 0) (clearTimeout (Num 0) sample_pending) =
       sample_pending\<lparr>nextSeq := 3, completions := Map.empty,
                      commands := [cancelTimer ''0'', cancelTimer ''0'']\<rparr>"
proof -
  let ?s = "clearTimeout (Num 0) sample_pending"
  have zero: "number_to_string (Num 0) = ''0''" and seven: "number_to_string (Num 7) = ''7''"
    by (simp_all add: number_to_string.simps show_nat.simps digit_char_def)
  have a: "completions initial_state (Num 7) = None"
    by (simp add: initial_state_def)
  have s: "?s = sample_pending\<lparr>nextSeq := 2, completions := Map.empty, commands := [cancelTimer ''0'']\<rparr>"
    by (simp add: clearTimeout_def sample_pending_def initial_state_def zero)
  have b: "completions ?s (Num 0) = None"
    by (simp add: s)
  show ?thesis
    using a b clearTimeout_unknown_handle [OF a] clearTimeout_unknown_handle [OF b]
    by (simp add: s zero seven initial_state_def)
qed

subsection \<open>Concluding an activation\<close>

text \<open>
  C7. When the buffer of pending external calls is not empty, \<open>concludeActivation\<close>
  returns \<open>pending\<close> with exactly the contents of the buffer, empties the buffer and
  leaves the commands as they are; when it is empty, \<open>concludeActivation\<close> returns
  \<open>complete\<close> with the length-delimited encoding of the completion message made of the
  run id and the commands, and empties the command buffer.
\<close>

theorem concludeActivation_cases:
  "(pendingExternalCalls s \<noteq> [] \<longrightarrow>
      concludeActivation L s = (pending (pendingExternalCalls s), s\<lparr>pendingExternalCalls := []\<rparr>)
      \<and> commands (snd (concludeActivation L s)) = commands s)
   \<and> (pendingExternalCalls s = [] \<longrightarrow>
      concludeActivation L s =
        (complete (encodeDelimited L \<lparr> completion_runId = map_option runId (info s),
                                       successful_commands = commands s \<rparr>),
         s\<lparr>commands := []\<rparr>))"
  by (simp add: concludeActivation_def getAndReset_eq)

theorem concludeActivation_cases_witness:
  "concludeActivation sample_lib sample_completed =
     (pending [sample_call], sample_completed\<lparr>pendingExternalCalls := []\<rparr>)
   \<and> concludeActivation sample_lib (sample_pending\<lparr>commands := [cancelTimer ''0'']\<rparr>) =
     (complete [1], sample_pending\<lparr>commands := []\<rparr>)"
proof -
  have a: "pendingExternalCalls sample_completed = [sample_call]"
    by (simp add: sample_completed_def)
  have b: "pendingExternalCalls (sample_pending\<lparr>commands := [cancelTimer ''0'']\<rparr>) = []"
    by (simp add: sample_pending_def initial_state_def)
  show ?thesis
    using a b concludeActivation_cases [of sample_completed sample_lib]
      concludeActivation_cases [of "sample_pending\<lparr>commands := [cancelTimer ''0'']\<rparr>" sample_lib]
    by (simp add: sample_lib_def)
qed

subsection \<open>Starting the workflow\<close>

text \<open>
  C8. A \<open>startWorkflow\<close> job whose arguments decode attaches the handlers
  \<open>then(completeWorkflow).catch(failWorkflow)\<close> to the promise of the \<open>execute\<close> chain: the
  inbound interceptors, the first outermost, around a base that calls \<open>workflow.main\<close>
  with the arguments. When that promise is fulfilled and the result encodes, a
  \<open>completeWorkflowExecution\<close> command with the encoded result is appended; when it is
  rejected, a \<open>failWorkflowExecution\<close> command with the converted failure is appended;
  once the promise has settled, \<open>state.completed\<close> is true.
\<close>

theorem startWorkflow_completes_or_fails:
  "(arrayFromPayloads L (start_arguments a) = Ok xs \<longrightarrow>
      startWorkflow L a s =
        (Ok (), s\<lparr>reactions := reactions s @ [ThenCompleteWorkflowCatchFailWorkflow
            (composeInterceptors (inbound (interceptors s)) execute
               (\<lambda>inp. case workflow s of
                         None \<Rightarrow> Rejected (JError IllegalStateError ''state.workflow is not defined'')
                       | Some w \<Rightarrow> main w (execute_args inp))
               \<lparr> headers = (case start_headers a of None \<Rightarrow> [] | Some h \<Rightarrow> h),
                 execute_args = xs \<rparr>)]\<rparr>))
   \<and> composeInterceptors [] execute base = base
   \<and> composeInterceptors (i # chain) execute base inp =
       execute i inp (composeInterceptors chain execute base)
   \<and> (toPayload L v = Ok p \<longrightarrow>
        run_reaction L (ThenCompleteWorkflowCatchFailWorkflow (Fulfilled v)) s' =
          (Ok (), s'\<lparr>commands := commands s' @ [completeWorkflowExecution p], completed := True\<rparr>))
   \<and> run_reaction L (ThenCompleteWorkflowCatchFailWorkflow (Rejected e)) s' =
       (Ok (), s'\<lparr>commands := commands s' @ [failWorkflowExecution (errorToUserCodeFailure L e)],
                  completed := True\<rparr>)
   \<and> (q \<noteq> Pending \<longrightarrow>
        completed (snd (run_reaction L (ThenCompleteWorkflowCatchFailWorkflow q) s')))"
proof -
  have settled: "q \<noteq> Pending \<longrightarrow>
        completed (snd (run_reaction L (ThenCompleteWorkflowCatchFailWorkflow q) s'))"
  proof (cases q)
    case (Fulfilled r)
    then show ?thesis
      by (cases "toPayload L r") (simp_all add: completeWorkflow_def failWorkflow_def)
  next
    case (Rejected r)
    then show ?thesis by (simp add: failWorkflow_def)
  next
    case Pending
    then show ?thesis by simp
  qed
  have started: "arrayFromPayloads L (start_arguments a) = Ok xs \<longrightarrow>
      startWorkflow L a s =
        (Ok (), s\<lparr>reactions := reactions s @ [ThenCompleteWorkflowCatchFailWorkflow
            (composeInterceptors (inbound (interceptors s)) execute
               (\<lambda>inp. case workflow s of
                         None \<Rightarrow> Rejected (JError IllegalStateError ''state.workflow is not defined'')
                       | Some w \<Rightarrow> main w (execute_args inp))
               \<lparr> headers = (case start_headers a of None \<Rightarrow> [] | Some h \<Rightarrow> h),
                 execute_args = xs \<rparr>)]\<rparr>)"
    by (simp add: startWorkflow_def Let_def)
  have chain: "composeInterceptors [] execute base = base
     \<and> composeInterceptors (i # chain) execute base inp =
       execute i inp (composeInterceptors chain execute base)"
    by (simp add: composeInterceptors_def)
  have handlers: "(toPayload L v = Ok p \<longrightarrow>
        run_reaction L (ThenCompleteWorkflowCatchFailWorkflow (Fulfilled v)) s' =
          (Ok (), s'\<lparr>commands := commands s' @ [completeWorkflowExecution p], completed := True\<rparr>))
   \<and> run_reaction L (ThenCompleteWorkflowCatchFailWorkflow (Rejected e)) s' =
       (Ok (), s'\<lparr>commands := commands s' @ [failWorkflowExecution (errorToUserCodeFailure L e)],
                  completed := True\<rparr>)"
    by (simp add: completeWorkflow_def failWorkflow_def)
  show ?thesis
    using settled started chain handlers by blast
qed

theorem startWorkflow_completes_or_fails_witness:
  "startWorkflow sample_lib \<lparr> start_headers = None, start_arguments = Some [[7]] \<rparr> sample_started =
     (Ok (), sample_started\<lparr>reactions :=
        [ThenCompleteWorkflowCatchFailWorkflow (Fulfilled (JNum (Num 1)))]\<rparr>)
   \<and> run_reaction sample_lib (ThenCompleteWorkflowCatchFailWorkflow (Fulfilled (JNum (Num 1))))
        sample_started =
     (Ok (), sample_started\<lparr>commands := [completeWorkflowExecution [1]], completed := True\<rparr>)
   \<and> run_reaction sample_lib (ThenCompleteWorkflowCatchFailWorkflow (Rejected (JError Error ''boom'')))
        sample_started =
     (Ok (), sample_started\<lparr>commands := [failWorkflowExecution \<lparr> message = Some ''boom'' \<rparr>],
                            completed := True\<rparr>)"
proof -
  let ?a = "\<lparr> start_headers = None, start_arguments = Some [[7]] \<rparr>"
  have args: "arrayFromPayloads sample_lib (start_arguments ?a) = Ok [JNum (Num 7)]"
    by (simp add: sample_lib_def)
  have enc: "toPayload sample_lib (JNum (Num 1)) = Ok [1]"
    by (simp add: sample_lib_def)
  have fl: "errorToUserCodeFailure sample_lib (JError Error ''boom'') = \<lparr> message = Some ''boom'' \<rparr>"
    by (simp add: sample_lib_def)
  have st: "inbound (interceptors sample_started) = [sample_interceptor]"
    "workflow sample_started = Some sample_workflow"
    "reactions sample_started = []" "commands sample_started = []"
    by (simp_all add: sample_started_def initial_state_def)
  note w = startWorkflow_completes_or_fails [where L = sample_lib and a = ?a and s = sample_started
      and xs = "[JNum (Num 7)]" and v = "JNum (Num 1)" and p = "[1]" and s' = sample_started
      and e = "JError Error ''boom''" and q = "Fulfilled (JNum (Num 1))"]
  show ?thesis
    using args enc fl st w
    by (simp add: composeInterceptors_def sample_interceptor_def sample_workflow_def)
qed

subsection \<open>Cancelling a scope without registered children\<close>

text \<open>
  C10. For a scope with no entry in the map of children, the cancellation function made
  by \<open>propagateCancellation\<close> throws the error \<open>Expected to find child scope mapping, got
  undefined\<close>; \<open>reject\<close> is not called and the state is unchanged. For the root scope this
  makes a \<open>cancelWorkflow\<close> job throw that error, with \<open>state.cancelled\<close> already set. The
  root has no entry in the initial state, where no scope has been opened, and after the
  promise of its only registered child has resolved, since the hook then drops the
  emptied entry.
\<close>

theorem propagateCancellation_no_children_entry:
  "(childScopes s sc = None \<longrightarrow>
      propagateCancellation env m rej sc err s =
        (Throw (JError Error ''Expected to find child scope mapping, got undefined''), s))
   \<and> (childScopes s RootScope = None \<longrightarrow>
        cancelWorkflow env s =
          (Throw (JError Error ''Expected to find child scope mapping, got undefined''),
           s\<lparr>cancelled := True\<rparr>)
        \<and> activator L env CancelWorkflowJob s = cancelWorkflow env s)
   \<and> childScopes initial_state RootScope = None
   \<and> (childScopes s RootScope = Some [n] \<longrightarrow>
        hook_resolve (Some \<lparr> data_scope = Child n t RootScope, cancellable = True \<rparr>) s =
          (Ok (), s\<lparr>childScopes := (childScopes s)(RootScope := None)\<rparr>))"
  by (auto simp: propagateCancellation_def cancelWorkflow_def rootScopeCancel_def
      initial_state_def hook_resolve_def set_delete_def Let_def)

theorem propagateCancellation_no_children_entry_witness:
  "propagateCancellation sample_env completeCancel (Opaque (Fun 0)) RootScope
        (JCancellationError ''Workflow cancelled'' external) initial_state =
       (Throw (JError Error ''Expected to find child scope mapping, got undefined''), initial_state)
   \<and> activator sample_lib sample_env CancelWorkflowJob initial_state =
       (Throw (JError Error ''Expected to find child scope mapping, got undefined''),
        initial_state\<lparr>cancelled := True\<rparr>)
   \<and> childScopes (pushScope (Child 1 TimerType RootScope) initial_state) RootScope = Some [1]
   \<and> childScopes (snd (hook_resolve (Some \<lparr> data_scope = Child 1 TimerType RootScope, cancellable = True \<rparr>)
                          (pushScope (Child 1 TimerType RootScope) initial_state))) RootScope = None"
proof -
  let ?s = "pushScope (Child 1 TimerType RootScope) initial_state"
  have h: "childScopes initial_state RootScope = None"
    by (simp add: initial_state_def)
  have p: "childScopes ?s RootScope = Some [1]"
    by (simp add: initial_state_def set_add_def)
  note w0 = propagateCancellation_no_children_entry [where s = initial_state and sc = RootScope
      and env = sample_env and m = completeCancel and rej = "Opaque (Fun 0)"
      and err = "JCancellationError ''Workflow cancelled'' external" and L = sample_lib]
  note w1 = propagateCancellation_no_children_entry [where s = ?s and n = 1 and t = TimerType]
  show ?thesis
    using h p w0 w1 by simp
qed

end
